theory Spec2Isabelle
  imports Complex_Main "HOL-Library.Product_Lexorder"
begin

section \<open>Strings, dates and the library calls of date\_formal.py\<close>

text \<open>
  Python strings are modelled as \<open>string\<close>: a character is a code point below 256.
  On these code points the class \<^verbatim>\<open>\d\<close> of the regular expressions (the decimal digits
  of Unicode) is the ten ASCII digits, and the class \<^verbatim>\<open>\w\<close> (the characters that are
  alphabetic, decimal, digit or numeric in Unicode, and the underscore) is the ASCII
  letters, digits and underscore together with the code points 170, 178, 179, 181, 185,
  186, 188 to 190 and 192 to 255 except 215 and 247.

  A \<^verbatim>\<open>datetime\<close> is the tuple (year, month, day, hour, minute, second); Python compares
  datetimes field by field in this order, which is the lexicographic order on tuples.
\<close>

type_synonym datetime = "nat \<times> nat \<times> nat \<times> nat \<times> nat \<times> nat"

type_synonym date = "nat \<times> nat \<times> nat"

text \<open>
  Every \<^verbatim>\<open>raise\<close> site and every uncaught library exception of the source is one
  constructor. The three \<^verbatim>\<open>ValueError\<close>s of the file selection differ by their message.
\<close>

datatype error =
    FilenameMismatch      \<comment> \<open>line 24: the file name does not match the pattern\<close>
  | StrptimeError         \<comment> \<open>line 21: \<^verbatim>\<open>datetime.strptime\<close> rejects the 14 digits\<close>
  | NoMatchingFile        \<comment> \<open>line 43: no latest file was found\<close>
  | MultipleUsers         \<comment> \<open>line 45: more than one user name\<close>
  | AttributeError        \<comment> \<open>a method called on \<^verbatim>\<open>None\<close> outside a \<^verbatim>\<open>try\<close>\<close>
  | ToDatetimeError       \<comment> \<open>line 81: \<^verbatim>\<open>pd.to_datetime\<close> rejects the text of \<^verbatim>\<open>started\<close>\<close>
  | MathDomainError       \<comment> \<open>line 82: \<^verbatim>\<open>math.log\<close> of a number that is not positive\<close>

definition is_digit :: "char \<Rightarrow> bool" where
  "is_digit c = (c \<in> set ''0123456789'')"

definition is_word :: "char \<Rightarrow> bool" where
  "is_word c =
     (c \<in> set ''abcdefghijklmnopqrstuvwxyzABCDEFGHIJKLMNOPQRSTUVWXYZ0123456789_''
      \<or> (of_char c :: nat) \<in> set [170, 178, 179, 181, 185, 186, 188, 189, 190]
      \<or> (192 \<le> (of_char c :: nat) \<and> (of_char c :: nat) \<noteq> 215 \<and> (of_char c :: nat) \<noteq> 247))"

definition digit_val :: "char \<Rightarrow> nat" where
  "digit_val c = of_char c - 48"

definition num2 :: "char \<Rightarrow> char \<Rightarrow> nat" where
  "num2 a b = 10 * digit_val a + digit_val b"

definition num4 :: "char \<Rightarrow> char \<Rightarrow> char \<Rightarrow> char \<Rightarrow> nat" where
  "num4 a b c d = 1000 * digit_val a + 100 * digit_val b + 10 * digit_val c + digit_val d"

definition endswith :: "string \<Rightarrow> string \<Rightarrow> bool" where
  "endswith s suf =
     (length suf \<le> length s \<and> drop (length s - length suf) s = suf)"

fun strip_prefix :: "string \<Rightarrow> string \<Rightarrow> string option" where
  "strip_prefix [] s = Some s"
| "strip_prefix (p # ps) [] = None"
| "strip_prefix (p # ps) (c # cs) = (if p = c then strip_prefix ps cs else None)"

subsection \<open>The calendar of the datetime module\<close>

definition is_leap :: "nat \<Rightarrow> bool" where
  "is_leap y = (y mod 4 = 0 \<and> (y mod 100 \<noteq> 0 \<or> y mod 400 = 0))"

definition days_in_month :: "nat \<Rightarrow> nat \<Rightarrow> nat" where
  "days_in_month y m =
     (if m = 2 \<and> is_leap y then 29
      else [0, 31, 28, 31, 30, 31, 30, 31, 31, 30, 31, 30, 31] ! m)"

definition days_before_year :: "nat \<Rightarrow> int" where
  "days_before_year y =
     (let z = int y - 1 in z * 365 + z div 4 - z div 100 + z div 400)"

definition days_before_month :: "nat \<Rightarrow> nat \<Rightarrow> int" where
  "days_before_month y m =
     [0, 0, 31, 59, 90, 120, 151, 181, 212, 243, 273, 304, 334] ! m
       + (if 2 < m \<and> is_leap y then 1 else 0)"

text \<open>\<^verbatim>\<open>date.toordinal\<close>: the number of the day, 0001-01-01 being day 1.\<close>

definition ymd2ord :: "date \<Rightarrow> int" where
  "ymd2ord d =
     (case d of (y, m, dd) \<Rightarrow> days_before_year y + days_before_month y m + int dd)"

text \<open>
  The constructor \<^verbatim>\<open>datetime(y, m, d, H, M, S)\<close> raises \<^verbatim>\<open>ValueError\<close> outside the ranges
  below (\<^verbatim>\<open>MINYEAR\<close> is 1, \<^verbatim>\<open>MAXYEAR\<close> is 9999).
\<close>

definition make_datetime ::
  "nat \<Rightarrow> nat \<Rightarrow> nat \<Rightarrow> nat \<Rightarrow> nat \<Rightarrow> nat \<Rightarrow> datetime option" where
  "make_datetime y m d H M S =
     (if 1 \<le> y \<and> y \<le> 9999 \<and> 1 \<le> m \<and> m \<le> 12 \<and> 1 \<le> d \<and> d \<le> days_in_month y m
         \<and> H < 24 \<and> M < 60 \<and> S < 60
      then Some (y, m, d, H, M, S) else None)"

subsection \<open>\<^verbatim>\<open>datetime.strptime\<close> with the two formats of the source\<close>

text \<open>
  \<^verbatim>\<open>strptime\<close> turns the format into a regular expression, matches it at the start of
  the string, and raises \<^verbatim>\<open>ValueError\<close> when there is no match or when the match does
  not reach the end of the string; then it builds the datetime, which raises
  \<^verbatim>\<open>ValueError\<close> for a date that does not exist. \<open>None\<close> stands for the \<^verbatim>\<open>ValueError\<close>.

  For \<^verbatim>\<open>%Y-%m-%d\<close> the expression is
  \<^verbatim>\<open>(\d\d\d\d)-(1[0-2]|0[1-9]|[1-9])-(3[0-1]|[1-2]\d|0[1-9]|[1-9]| [1-9])\<close>.
\<close>

definition re_month2 :: "char \<Rightarrow> char \<Rightarrow> bool" where
  "re_month2 a b =
     (a = CHR ''1'' \<and> b \<in> set ''012'' \<or> a = CHR ''0'' \<and> b \<in> set ''123456789'')"

definition re_month1 :: "char \<Rightarrow> bool" where
  "re_month1 a = (a \<in> set ''123456789'')"

definition re_day2 :: "char \<Rightarrow> char \<Rightarrow> bool" where
  "re_day2 a b =
     (a = CHR ''3'' \<and> b \<in> set ''01'' \<or> a \<in> set ''12'' \<and> is_digit b
        \<or> a = CHR ''0'' \<and> b \<in> set ''123456789'')"

text \<open>The month and the dash after it: the rest of the string is returned.\<close>

fun match_month_dash :: "string \<Rightarrow> (nat \<times> string) option" where
  "match_month_dash (a # b # c # rest) =
     (if re_month2 a b \<and> c = CHR ''-'' then Some (num2 a b, rest)
      else if re_month1 a \<and> b = CHR ''-'' then Some (digit_val a, c # rest)
      else None)"
| "match_month_dash [a, b] =
     (if re_month1 a \<and> b = CHR ''-'' then Some (digit_val a, []) else None)"
| "match_month_dash _ = None"

text \<open>The day, which must end the string.\<close>

fun match_day_end :: "string \<Rightarrow> nat option" where
  "match_day_end [a, b] =
     (if re_day2 a b then Some (num2 a b)
      else if a = CHR '' '' \<and> b \<in> set ''123456789'' then Some (digit_val b)
      else None)"
| "match_day_end [a] = (if a \<in> set ''123456789'' then Some (digit_val a) else None)"
| "match_day_end _ = None"

definition strptime_ymd :: "string \<Rightarrow> datetime option" where
  "strptime_ymd s =
     (case s of
        y1 # y2 # y3 # y4 # dash # rest \<Rightarrow>
          if is_digit y1 \<and> is_digit y2 \<and> is_digit y3 \<and> is_digit y4 \<and> dash = CHR ''-''
          then (case match_month_dash rest of
                  None \<Rightarrow> None
                | Some (m, rest') \<Rightarrow>
                    (case match_day_end rest' of
                       None \<Rightarrow> None
                     | Some d \<Rightarrow> make_datetime (num4 y1 y2 y3 y4) m d 0 0 0))
          else None
      | _ \<Rightarrow> None)"

text \<open>
  \<^verbatim>\<open>%Y%m%d%H%M%S\<close> is only applied to the second group of the file name pattern, a
  string of exactly fourteen digits. Each field of the expression takes at most two
  digits (four for the year), so a match that reaches the end of fourteen digits gives
  two digits to every field, and the two-digit alternatives come first in every field.
\<close>

definition strptime_compact :: "string \<Rightarrow> datetime option" where
  "strptime_compact s =
     (case s of
        [y1, y2, y3, y4, m1, m2, d1, d2, H1, H2, M1, M2, S1, S2] \<Rightarrow>
          if list_all is_digit s
          then make_datetime (num4 y1 y2 y3 y4) (num2 m1 m2) (num2 d1 d2)
                 (num2 H1 H2) (num2 M1 M2) (num2 S1 S2)
          else None
      | _ \<Rightarrow> None)"

section \<open>Choosing the export file\<close>

text \<open>
  \<^verbatim>\<open>extract_info_from_filename\<close> (lines 15 to 24) matches
  \<^verbatim>\<open>vndb-list-export-(\w+)-(\d{14}).xml\<close> at the start of the name with \<^verbatim>\<open>re.match\<close>: the
  name may go on after the match, and the unescaped dot stands for any character but a
  newline. \<^verbatim>\<open>\w+\<close> takes the whole run of word characters, since the dash that must
  follow is not a word character.
\<close>

definition extract_info_from_filename :: "string \<Rightarrow> error + (string \<times> datetime)" where
  "extract_info_from_filename filename =
     (case strip_prefix ''vndb-list-export-'' filename of
        None \<Rightarrow> Inl FilenameMismatch
      | Some r \<Rightarrow>
          let username = takeWhile is_word r;
              r1 = dropWhile is_word r;
              export_time_str = take 14 (drop 1 r1);
              r2 = drop 15 r1
          in if username \<noteq> [] \<and> take 1 r1 = ''-''
                \<and> length export_time_str = 14 \<and> list_all is_digit export_time_str
                \<and> r2 \<noteq> [] \<and> hd r2 \<noteq> CHR 0x0A \<and> take 3 (drop 1 r2) = ''xml''
             then (case strptime_compact export_time_str of
                     None \<Rightarrow> Inl StrptimeError
                   | Some export_time \<Rightarrow> Inr (username, export_time))
             else Inl FilenameMismatch)"

text \<open>
  \<^verbatim>\<open>process_files\<close> (lines 28 to 47). The listing of the folder is the argument; the
  three local variables of the loop are the state.
\<close>

record selection =
  latest_file :: "string option"
  latest_export_time :: datetime
  usernames :: "string set"

fun process_files_loop :: "string list \<Rightarrow> selection \<Rightarrow> error + selection" where
  "process_files_loop [] st = Inr st"
| "process_files_loop (filename # file_list) st =
     (if endswith filename ''.xml''
      then (case extract_info_from_filename filename of
              Inl e \<Rightarrow> Inl e
            | Inr (username, export_time) \<Rightarrow>
                process_files_loop file_list
                  (if latest_export_time st < export_time
                   then st\<lparr>usernames := insert username (usernames st),
                           latest_export_time := export_time,
                           latest_file := Some filename\<rparr>
                   else st\<lparr>usernames := insert username (usernames st)\<rparr>))
      else process_files_loop file_list st)"

definition process_files :: "string list \<Rightarrow> error + string" where
  "process_files file_list =
     (case process_files_loop file_list
             \<lparr>latest_file = None, latest_export_time = (1970, 1, 1, 0, 0, 0),
              usernames = {}\<rparr> of
        Inl e \<Rightarrow> Inl e
      | Inr st \<Rightarrow>
          (case latest_file st of
             None \<Rightarrow> Inl NoMatchingFile
           | Some f \<Rightarrow> if 1 < card (usernames st) then Inl MultipleUsers else Inr f))"

section \<open>Extracting the span records\<close>

text \<open>
  An element of \<^verbatim>\<open>xml.etree.ElementTree\<close>: its tag, its attributes, its text
  (\<^verbatim>\<open>None\<close> for an element without text) and its children in document order.
  \<^verbatim>\<open>e.find(t)\<close> is the first child with tag \<open>t\<close> or \<^verbatim>\<open>None\<close>, \<^verbatim>\<open>e.findall(t)\<close> all
  such children, \<^verbatim>\<open>e.get(k)\<close> the attribute or \<^verbatim>\<open>None\<close>.
\<close>

datatype element =
  Element (tag: string) (attrib: "string \<Rightarrow> string option") (elem_text: "string option")
    (children: "element list")

definition find_elem :: "element \<Rightarrow> string \<Rightarrow> element option" where
  "find_elem e t = List.find (\<lambda>c. tag c = t) (children e)"

definition findall :: "element \<Rightarrow> string \<Rightarrow> element list" where
  "findall e t = filter (\<lambda>c. tag c = t) (children e)"

text \<open>
  A pandas \<^verbatim>\<open>Timestamp\<close> is a real number of days, counted like \<open>ymd2ord\<close>, the
  fraction being the time of day. \<open>to_datetime\<close> is \<^verbatim>\<open>pd.to_datetime\<close> of a date:
  midnight of that day. \<^verbatim>\<open>pd.to_datetime\<close> of a string is a function of the pandas
  library, whose parser is not part of the source: it is the parameter \<open>pd\<close> of the
  extraction, \<open>pd s = None\<close> when it raises on \<open>s\<close> and \<open>pd s = Some d\<close> when it returns
  midnight of the day \<open>d\<close>. It is not the parser of \<^verbatim>\<open>strptime\<close>: it raises on some
  strings that \<^verbatim>\<open>strptime\<close> accepts.

  Floating point numbers are modelled as reals: \<^verbatim>\<open>math.log(x, b)\<close> is \<open>ln x / ln b\<close> and
  raises \<^verbatim>\<open>ValueError\<close> when \<open>x\<close> is not positive. \<^verbatim>\<open>pd.DateOffset(days=x)\<close> added to a
  \<^verbatim>\<open>Timestamp\<close> moves it by \<^verbatim>\<open>int(x)\<close> days: the days are cast to an integer, which
  drops the fraction.
\<close>

definition to_datetime :: "date \<Rightarrow> real" where
  "to_datetime d = real_of_int (ymd2ord d)"

definition date_offset_days :: "real \<Rightarrow> int" where
  "date_offset_days x = (if 0 \<le> x then \<lfloor>x\<rfloor> else \<lceil>x\<rceil>)"

definition math_log :: "real \<Rightarrow> real \<Rightarrow> error + real" where
  "math_log x b = (if x \<le> 0 then Inl MathDomainError else Inr (ln x / ln b))"

definition days_diff :: "date \<Rightarrow> date \<Rightarrow> int" where
  "days_diff today started_date = ymd2ord today - ymd2ord started_date"

text \<open>
  The value stored under \<^verbatim>\<open>finished\<close> is the text of the element (a string or
  \<^verbatim>\<open>None\<close>) when the element is there, and a \<^verbatim>\<open>Timestamp\<close> otherwise.
\<close>

datatype finished_value = FinishedText "string option" | FinishedTimestamp real

record span_record =
  title :: "string option"
  started :: string
  finished :: finished_value
  label :: "string option"

text \<open>
  Lines 56 to 62: every exception of the \<^verbatim>\<open>try\<close> block (no \<^verbatim>\<open>started\<close> element, no text,
  a string that \<^verbatim>\<open>strptime\<close> rejects) and a start before \<^verbatim>\<open>time_range\<close> lead to
  \<^verbatim>\<open>continue\<close>, which is \<open>None\<close> here.
\<close>

definition start_gate :: "string \<Rightarrow> element \<Rightarrow> string option" where
  "start_gate time_range vn =
     (case find_elem vn ''started'' of
        None \<Rightarrow> None
      | Some se \<Rightarrow>
          (case elem_text se of
             None \<Rightarrow> None
           | Some started_str \<Rightarrow>
               (case strptime_ymd started_str of
                  None \<Rightarrow> None
                | Some sd \<Rightarrow>
                    (case strptime_ymd time_range of
                       None \<Rightarrow> None
                     | Some cutoff \<Rightarrow>
                         if sd < cutoff then None else Some started_str))))"

text \<open>
  The body of the loop of \<^verbatim>\<open>extract_vn_info\<close> (lines 56 to 87) for one \<^verbatim>\<open>vn\<close> element:
  \<open>Inr None\<close> when the entry is skipped, \<open>Inr (Some r)\<close> when \<open>r\<close> is appended to the
  results, \<open>Inl e\<close> when an exception leaves the function. \<open>today\<close> is
  \<^verbatim>\<open>datetime.today().date()\<close>. Lines 81 to 83 are in the \<^verbatim>\<open>except\<close> branch of line 78,
  where nothing catches an exception.
\<close>

definition extract_vn ::
  "(string \<Rightarrow> date option) \<Rightarrow> string \<Rightarrow> date \<Rightarrow> element \<Rightarrow> error + span_record option" where
  "extract_vn pd time_range today vn =
     (case start_gate time_range vn of
        None \<Rightarrow> Inr None
      | Some started_str \<Rightarrow>
          (case find_elem vn ''title'' of
             None \<Rightarrow> Inl AttributeError
           | Some te \<Rightarrow>
               let title_v = (case attrib te ''original'' of
                                None \<Rightarrow> elem_text te
                              | Some t \<Rightarrow> Some t);
                   label_v = (case find_elem vn ''label'' of
                                None \<Rightarrow> Some ''Finished''
                              | Some le \<Rightarrow> attrib le ''label'')
               in (case find_elem vn ''finished'' of
                     Some fe \<Rightarrow>
                       Inr (Some \<lparr>title = title_v, started = started_str,
                                  finished = FinishedText (elem_text fe), label = label_v\<rparr>)
                   | None \<Rightarrow>
                       if label_v = Some ''Stalled''
                       then (case pd started_str of
                               None \<Rightarrow> Inl ToDatetimeError
                             | Some start_date \<Rightarrow>
                                 (case math_log (real_of_int (days_diff today start_date + 1))
                                        1.27 of
                                    Inl e \<Rightarrow> Inl e
                                  | Inr line_length \<Rightarrow>
                                      Inr (Some \<lparr>title = title_v, started = started_str,
                                                 finished = FinishedTimestamp
                                                   (to_datetime start_date
                                                      + real_of_int
                                                          (date_offset_days line_length)),
                                                 label = label_v\<rparr>)))
                       else Inr (Some \<lparr>title = title_v, started = started_str,
                                       finished = FinishedTimestamp (to_datetime today),
                                       label = label_v\<rparr>))))"

fun extract_vn_loop ::
  "(string \<Rightarrow> date option) \<Rightarrow> string \<Rightarrow> date \<Rightarrow> element list \<Rightarrow> span_record list
     \<Rightarrow> error + span_record list" where
  "extract_vn_loop pd time_range today [] results = Inr results"
| "extract_vn_loop pd time_range today (vn # vns) results =
     (case extract_vn pd time_range today vn of
        Inl e \<Rightarrow> Inl e
      | Inr None \<Rightarrow> extract_vn_loop pd time_range today vns results
      | Inr (Some r) \<Rightarrow> extract_vn_loop pd time_range today vns (results @ [r]))"

text \<open>
  \<^verbatim>\<open>extract_vn_info\<close> (lines 51 to 88) on the root of the parsed file. A root without
  a \<^verbatim>\<open>vns\<close> child makes \<^verbatim>\<open>findall\<close> fail on \<^verbatim>\<open>None\<close>.
\<close>

definition extract_vn_info ::
  "(string \<Rightarrow> date option) \<Rightarrow> string \<Rightarrow> date \<Rightarrow> element \<Rightarrow> error + span_record list" where
  "extract_vn_info pd time_range today xml_root =
     (case find_elem xml_root ''vns'' of
        None \<Rightarrow> Inl AttributeError
      | Some vns \<Rightarrow> extract_vn_loop pd time_range today (findall vns ''vn'') [])"

section \<open>Vocabulary of the statements\<close>

text \<open>
  \<open>is_candidate f u t\<close>: the name \<open>f\<close> passes the test of line 36 and
  \<^verbatim>\<open>extract_info_from_filename\<close> returns the user name \<open>u\<close> and the export time \<open>t\<close>.
\<close>

definition is_candidate :: "string \<Rightarrow> string \<Rightarrow> datetime \<Rightarrow> bool" where
  "is_candidate f u t = (endswith f ''.xml'' \<and> extract_info_from_filename f = Inr (u, t))"

text \<open>
  \<open>first_latest fl f t\<close>: \<open>f\<close> is a candidate of the listing \<open>fl\<close> with export time
  \<open>t\<close>, every candidate before it is strictly older and no candidate after it is newer.
  \<open>none_later fl t\<close>: no candidate of \<open>fl\<close> is newer than \<open>t\<close>.
\<close>

definition first_latest :: "string list \<Rightarrow> string \<Rightarrow> datetime \<Rightarrow> bool" where
  "first_latest fl f t =
     (\<exists>pre post u. fl = pre @ f # post \<and> is_candidate f u t
        \<and> (\<forall>g\<in>set pre. \<forall>u' t'. is_candidate g u' t' \<longrightarrow> t' < t)
        \<and> (\<forall>g\<in>set post. \<forall>u' t'. is_candidate g u' t' \<longrightarrow> t' \<le> t))"

definition none_later :: "string list \<Rightarrow> datetime \<Rightarrow> bool" where
  "none_later fl t = (\<forall>g\<in>set fl. \<forall>u' t'. is_candidate g u' t' \<longrightarrow> t' \<le> t)"

section \<open>Example entries\<close>

text \<open>
  Entries and export documents used to evaluate the extraction. \<open>leaf t s\<close> is an
  element \<^verbatim>\<open><t>s</t>\<close> without attributes; \<open>export_of vns\<close> is a document whose root
  has one \<^verbatim>\<open>vns\<close> child holding the entries \<open>vns\<close>. \<open>pd_examples\<close> gives
  \<^verbatim>\<open>pd.to_datetime\<close> on the start dates of the examples, which are written as
  YYYY-MM-DD; the examples apply it to no other string.
\<close>

definition pd_examples :: "string \<Rightarrow> date option" where
  "pd_examples =
     [''2021-05-01'' \<mapsto> (2021, 5, 1), ''2021-08-02'' \<mapsto> (2021, 8, 2),
      ''2022-01-01'' \<mapsto> (2022, 1, 1)]"

definition leaf :: "string \<Rightarrow> string \<Rightarrow> element" where
  "leaf t s = Element t Map.empty (Some s) []"

definition export_of :: "element list \<Rightarrow> element" where
  "export_of vns = Element ''vndb-export'' Map.empty None [Element ''vns'' Map.empty None vns]"



text \<open>An entry whose \<^verbatim>\<open>title\<close> and \<^verbatim>\<open>finished\<close> elements are empty: \<^verbatim>\<open><title/><finished/>\<close>.\<close>

definition vn_blank :: element where
  "vn_blank = Element ''vn'' Map.empty None
     [leaf ''started'' ''2021-05-01'', Element ''title'' Map.empty None [],
      Element ''finished'' Map.empty None []]"

text \<open>An entry without a \<^verbatim>\<open>title\<close> element.\<close>

definition vn_no_title :: element where
  "vn_no_title = Element ''vn'' Map.empty None [leaf ''started'' ''2021-05-01'']"

text \<open>An entry whose \<^verbatim>\<open>label\<close> element has no \<^verbatim>\<open>label\<close> attribute: \<^verbatim>\<open><label id="2"/>\<close>.\<close>

definition vn_bare_label :: element where
  "vn_bare_label = Element ''vn'' Map.empty None
     [leaf ''started'' ''2021-05-01'', leaf ''title'' ''T'',
      Element ''label'' [''id'' \<mapsto> ''2''] None []]"

text \<open>Three entries that the start-date gate rejects, and one complete entry.\<close>

definition vn_no_started :: element where
  "vn_no_started = Element ''vn'' Map.empty None [leaf ''title'' ''A'']"

definition vn_unparsable :: element where
  "vn_unparsable = Element ''vn'' Map.empty None [leaf ''started'' ''soon'', leaf ''title'' ''B'']"

definition vn_before_cutoff :: element where
  "vn_before_cutoff = Element ''vn'' Map.empty None
     [leaf ''started'' ''2019-12-31'', leaf ''title'' ''C'']"

definition vn_plain :: element where
  "vn_plain = Element ''vn'' Map.empty None
     [leaf ''started'' ''2021-05-01'', leaf ''title'' ''T'', leaf ''finished'' ''2021-06-01'']"

text \<open>A stalled entry with a finish date, and an entry that is being played.\<close>

definition vn_finished_stalled :: element where
  "vn_finished_stalled = Element ''vn'' Map.empty None
     [leaf ''started'' ''2021-05-01'', leaf ''title'' ''T'', leaf ''finished'' ''2022-06-01'',
      Element ''label'' [''label'' \<mapsto> ''Stalled''] None []]"

definition vn_playing :: element where
  "vn_playing = Element ''vn'' Map.empty None
     [leaf ''started'' ''2022-01-01'', leaf ''title'' ''T'',
      Element ''label'' [''label'' \<mapsto> ''Playing''] None []]"

text \<open>The entry that is being played, with an empty \<^verbatim>\<open>finished\<close> element: \<^verbatim>\<open><finished/>\<close>.\<close>

definition vn_playing_empty_finished :: element where
  "vn_playing_empty_finished = Element ''vn'' Map.empty None
     [leaf ''started'' ''2022-01-01'', leaf ''title'' ''T'',
      Element ''finished'' Map.empty None [],
      Element ''label'' [''label'' \<mapsto> ''Playing''] None []]"

section \<open>Properties of the file selection\<close>

lemma loop_filter:
  "process_files_loop (filter (\<lambda>f. endswith f ''.xml'') fl) st = process_files_loop fl st"
  by (induction fl arbitrary: st) (auto split: sum.splits)

lemma loop_error:
  "process_files_loop fl st = Inl e \<Longrightarrow>
     \<exists>f\<in>set fl. endswith f ''.xml'' \<and> extract_info_from_filename f = Inl e"
  by (induction fl arbitrary: st) (auto split: sum.splits if_splits)

lemma loop_first_error:
  "endswith f ''.xml'' \<Longrightarrow> extract_info_from_filename f = Inl e \<Longrightarrow> f \<in> set fl \<Longrightarrow>
     \<exists>e'. process_files_loop fl st = Inl e'"
  by (induction fl arbitrary: st) (auto split: sum.splits if_splits)

lemma loop_total:
  "\<forall>f\<in>set fl. endswith f ''.xml'' \<longrightarrow> (\<exists>u t. extract_info_from_filename f = Inr (u, t)) \<Longrightarrow>
     \<exists>st'. process_files_loop fl st = Inr st'"
  by (induction fl arbitrary: st) (auto split: sum.splits if_splits)

lemma loop_usernames:
  "process_files_loop fl st = Inr st' \<Longrightarrow>
     usernames st' = usernames st \<union> {u. \<exists>f\<in>set fl. \<exists>t. is_candidate f u t}"
proof (induction fl arbitrary: st)
  case Nil
  then show ?case by simp
next
  case (Cons f fl)
  show ?case
  proof (cases "endswith f ''.xml''")
    case False
    with Cons show ?thesis by (auto simp: is_candidate_def)
  next
    case True
    with Cons.prems obtain u t where ex: "extract_info_from_filename f = Inr (u, t)"
      by (auto split: sum.splits)
    let ?st1 = "if latest_export_time st < t
                   then st\<lparr>usernames := insert u (usernames st),
                           latest_export_time := t,
                           latest_file := Some f\<rparr>
                   else st\<lparr>usernames := insert u (usernames st)\<rparr>"
    from Cons.prems True ex have "process_files_loop fl ?st1 = Inr st'" by simp
    from Cons.IH[OF this] have "usernames st' = insert u (usernames st) \<union> {u. \<exists>f\<in>set fl. \<exists>t. is_candidate f u t}"
      by (simp split: if_splits)
    moreover have "{u'. \<exists>g\<in>set (f # fl). \<exists>t. is_candidate g u' t}
        = insert u {u'. \<exists>g\<in>set fl. \<exists>t. is_candidate g u' t}"
      using True ex unfolding is_candidate_def by (simp del: split_paired_Ex split_paired_All) blast
    ultimately show ?thesis by (simp del: split_paired_Ex split_paired_All)
  qed
qed

lemma loop_finite:
  "process_files_loop fl st = Inr st' \<Longrightarrow> finite (usernames st) \<Longrightarrow> finite (usernames st')"
  by (induction fl arbitrary: st) (auto split: sum.splits if_splits)

lemma first_latest_here:
  "is_candidate f u t \<Longrightarrow> none_later fl t \<Longrightarrow> first_latest (f # fl) f t"
  unfolding first_latest_def none_later_def
  by (rule exI[of _ "[]"], rule exI[of _ fl], rule exI[of _ u]) simp

lemma first_latest_later:
  assumes "first_latest fl g t" and "\<And>u' t'. is_candidate f u' t' \<Longrightarrow> t' < t"
  shows "first_latest (f # fl) g t"
proof -
  from assms(1) obtain pre post u where h: "fl = pre @ g # post" "is_candidate g u t"
    "\<forall>x\<in>set pre. \<forall>u' t'. is_candidate x u' t' \<longrightarrow> t' < t"
    "\<forall>x\<in>set post. \<forall>u' t'. is_candidate x u' t' \<longrightarrow> t' \<le> t"
    unfolding first_latest_def by blast
  have "f # fl = (f # pre) @ g # post" using h(1) by simp
  moreover have "\<forall>x\<in>set (f # pre). \<forall>u' t'. is_candidate x u' t' \<longrightarrow> t' < t"
    using h(3) assms(2) by (simp del: split_paired_All split_paired_Ex)
  ultimately show ?thesis unfolding first_latest_def using h(2,4) by blast
qed

lemma none_later_Cons:
  "none_later (f # fl) t \<longleftrightarrow> (\<forall>u' t'. is_candidate f u' t' \<longrightarrow> t' \<le> t) \<and> none_later fl t"
  unfolding none_later_def by (simp del: split_paired_All split_paired_Ex)

lemma loop_latest:
  "process_files_loop fl st = Inr st' \<Longrightarrow>
     (latest_file st' = latest_file st \<and> latest_export_time st' = latest_export_time st
        \<and> none_later fl (latest_export_time st))
     \<or> (\<exists>f. latest_file st' = Some f \<and> latest_export_time st < latest_export_time st'
            \<and> first_latest fl f (latest_export_time st'))"
proof (induction fl arbitrary: st)
  case Nil
  then show ?case by (simp add: none_later_def)
next
  case (Cons f fl)
  show ?case
  proof (cases "endswith f ''.xml''")
    case False
    then have nc: "\<And>u' t'. \<not> is_candidate f u' t'" by (simp add: is_candidate_def)
    from Cons.prems False have "process_files_loop fl st = Inr st'" by simp
    from Cons.IH[OF this] show ?thesis
    proof
      assume "latest_file st' = latest_file st \<and> latest_export_time st' = latest_export_time st
        \<and> none_later fl (latest_export_time st)"
      then show ?thesis using nc by (simp add: none_later_Cons)
    next
      assume "\<exists>g. latest_file st' = Some g \<and> latest_export_time st < latest_export_time st'
            \<and> first_latest fl g (latest_export_time st')"
      then obtain g where g: "latest_file st' = Some g" "latest_export_time st < latest_export_time st'"
        "first_latest fl g (latest_export_time st')" by blast
      have "first_latest (f # fl) g (latest_export_time st')"
        by (rule first_latest_later[OF g(3)]) (simp add: nc)
      with g show ?thesis by blast
    qed
  next
    case True
    with Cons.prems obtain u t where ex: "extract_info_from_filename f = Inr (u, t)"
      by (auto split: sum.splits)
    have cand: "is_candidate f u t" using True ex by (simp add: is_candidate_def)
    have uniq: "\<And>u' t'. is_candidate f u' t' \<Longrightarrow> t' = t" using ex by (simp add: is_candidate_def)
    show ?thesis
    proof (cases "latest_export_time st < t")
      case lt: True
      let ?st1 = "st\<lparr>usernames := insert u (usernames st), latest_export_time := t,
                      latest_file := Some f\<rparr>"
      from Cons.prems True ex lt have "process_files_loop fl ?st1 = Inr st'" by simp
      from Cons.IH[OF this] show ?thesis
      proof
        assume "latest_file st' = latest_file ?st1 \<and> latest_export_time st' = latest_export_time ?st1
          \<and> none_later fl (latest_export_time ?st1)"
        then have a: "latest_file st' = Some f" "latest_export_time st' = t" "none_later fl t" by simp_all
        have "first_latest (f # fl) f t" by (rule first_latest_here[OF cand a(3)])
        with a lt show ?thesis by simp
      next
        assume "\<exists>g. latest_file st' = Some g \<and> latest_export_time ?st1 < latest_export_time st'
            \<and> first_latest fl g (latest_export_time st')"
        then obtain g where g: "latest_file st' = Some g" "t < latest_export_time st'"
          "first_latest fl g (latest_export_time st')" by auto
        have "first_latest (f # fl) g (latest_export_time st')"
          by (rule first_latest_later[OF g(3)]) (use uniq g(2) in blast)
        moreover have "latest_export_time st < latest_export_time st'" using lt g(2) by (rule less_trans)
        ultimately show ?thesis using g(1) by blast
      qed
    next
      case ge: False
      let ?st2 = "st\<lparr>usernames := insert u (usernames st)\<rparr>"
      from Cons.prems True ex ge have "process_files_loop fl ?st2 = Inr st'" by simp
      from Cons.IH[OF this] show ?thesis
      proof
        assume "latest_file st' = latest_file ?st2 \<and> latest_export_time st' = latest_export_time ?st2
          \<and> none_later fl (latest_export_time ?st2)"
        then have a: "latest_file st' = latest_file st" "latest_export_time st' = latest_export_time st"
          "none_later fl (latest_export_time st)" by simp_all
        have "\<And>u' t'. is_candidate f u' t' \<Longrightarrow> t' \<le> latest_export_time st"
          using uniq ge by (metis not_less)
        then have "none_later (f # fl) (latest_export_time st)" using a(3) unfolding none_later_Cons by blast
        with a show ?thesis by blast
      next
        assume "\<exists>g. latest_file st' = Some g \<and> latest_export_time ?st2 < latest_export_time st'
            \<and> first_latest fl g (latest_export_time st')"
        then obtain g where g: "latest_file st' = Some g" "latest_export_time st < latest_export_time st'"
          "first_latest fl g (latest_export_time st')" by auto
        have "t < latest_export_time st'" using ge g(2) by (metis not_less le_less_trans)
        then have "first_latest (f # fl) g (latest_export_time st')"
          using uniq by (intro first_latest_later[OF g(3)]) blast
        with g show ?thesis by blast
      qed
    qed
  qed
qed

lemma process_files_Inr:
  assumes "process_files fl = Inr f"
  shows "\<exists>t. first_latest fl f t \<and> (1970, 1, 1, 0, 0, 0) < t"
proof -
  let ?st0 = "\<lparr>latest_file = None, latest_export_time = (1970, 1, 1, 0, 0, 0), usernames = {}\<rparr>"
  from assms obtain st' where st': "process_files_loop fl ?st0 = Inr st'" "latest_file st' = Some f"
    unfolding process_files_def by (auto split: sum.splits option.splits if_splits)
  from loop_latest[OF st'(1)] st'(2)
  have "(1970, 1, 1, 0, 0, 0) < latest_export_time st' \<and> first_latest fl f (latest_export_time st')"
    by (simp del: split_paired_Ex split_paired_All less_prod_simp less_eq_prod_simp)
  then show ?thesis by blast
qed

lemma process_files_result:
  assumes all: "\<forall>f\<in>set fl. endswith f ''.xml'' \<longrightarrow> (\<exists>u t. extract_info_from_filename f = Inr (u, t))"
    and late: "is_candidate g u t" "g \<in> set fl" "(1970, 1, 1, 0, 0, 0) < t"
  shows "\<exists>st' f. process_files_loop fl \<lparr>latest_file = None, latest_export_time = (1970, 1, 1, 0, 0, 0), usernames = {}\<rparr> = Inr st'
          \<and> latest_file st' = Some f \<and> first_latest fl f (latest_export_time st')
          \<and> usernames st' = {u. \<exists>f\<in>set fl. \<exists>t. is_candidate f u t} \<and> finite (usernames st')"
proof -
  let ?st0 = "\<lparr>latest_file = None, latest_export_time = (1970, 1, 1, 0, 0, 0), usernames = {}\<rparr>"
  from loop_total[OF all] obtain st' where st': "process_files_loop fl ?st0 = Inr st'" by blast
  have "\<not> none_later fl (1970, 1, 1, 0, 0, 0)"
    using late unfolding none_later_def by (metis not_less)
  with loop_latest[OF st'] have "\<exists>f. latest_file st' = Some f \<and> first_latest fl f (latest_export_time st')"
    by (simp del: split_paired_Ex split_paired_All less_prod_simp less_eq_prod_simp) blast
  then obtain f where "latest_file st' = Some f"
      "first_latest fl f (latest_export_time st')" by blast
  moreover from loop_usernames[OF st'] have "usernames st' = {u. \<exists>f\<in>set fl. \<exists>t. is_candidate f u t}"
    by (simp del: split_paired_Ex split_paired_All)
  moreover from loop_finite[OF st'] have "finite (usernames st')" by simp
  ultimately show ?thesis using st' by blast
qed

subsection \<open>Concrete file names\<close>

lemmas filename_eval = extract_info_from_filename_def strptime_compact_def make_datetime_def
  num2_def num4_def digit_val_def is_digit_def is_word_def days_in_month_def is_leap_def
  Let_def

lemma ex_2023: "extract_info_from_filename ''vndb-list-export-A-20230101000000.xml'' = Inr (''A'', (2023, 1, 1, 0, 0, 0))"
  by (simp add: filename_eval)

lemma ex_2024: "extract_info_from_filename ''vndb-list-export-A-20240101000000.xml'' = Inr (''A'', (2024, 1, 1, 0, 0, 0))"
  by (simp add: filename_eval)

lemma ex_2024b: "extract_info_from_filename ''vndb-list-export-A-20240101000000.xml.xml'' = Inr (''A'', (2024, 1, 1, 0, 0, 0))"
  by (simp add: filename_eval)

lemma ex_B2024: "extract_info_from_filename ''vndb-list-export-B-20240101000000.xml'' = Inr (''B'', (2024, 1, 1, 0, 0, 0))"
  by (simp add: filename_eval)

lemma ex_A1969: "extract_info_from_filename ''vndb-list-export-A-19690101000000.xml'' = Inr (''A'', (1969, 1, 1, 0, 0, 0))"
  by (simp add: filename_eval)

lemma ex_B1969: "extract_info_from_filename ''vndb-list-export-B-19690101000000.xml'' = Inr (''B'', (1969, 1, 1, 0, 0, 0))"
  by (simp add: filename_eval)

lemma ex_A1970: "extract_info_from_filename ''vndb-list-export-A-19700101000000.xml'' = Inr (''A'', (1970, 1, 1, 0, 0, 0))"
  by (simp add: filename_eval)

lemma ex_notes: "extract_info_from_filename ''notes.xml'' = Inl FilenameMismatch"
  by (simp add: filename_eval)

subsection \<open>The claims about the file selection\<close>

text \<open>
  Claim C4, as the code has it. A name that does not end in \<^verbatim>\<open>.xml\<close> is left out and
  the selection goes on as if it were not in the folder. A name that ends in \<^verbatim>\<open>.xml\<close>
  and that \<^verbatim>\<open>extract_info_from_filename\<close> rejects is not left out: the exception
  leaves \<^verbatim>\<open>process_files\<close>, whose result is then the error of such a name.
\<close>

theorem select_skips_other_extensions:
  "process_files (filter (\<lambda>f. endswith f ''.xml'') fl) = process_files fl
   \<and> (\<forall>f\<in>set fl. \<forall>e. endswith f ''.xml'' \<and> extract_info_from_filename f = Inl e \<longrightarrow>
        (\<exists>e' g. process_files fl = Inl e' \<and> g \<in> set fl \<and> endswith g ''.xml''
                 \<and> extract_info_from_filename g = Inl e'))"
proof (intro conjI ballI allI impI)
  show "process_files (filter (\<lambda>f. endswith f ''.xml'') fl) = process_files fl"
    unfolding process_files_def by (simp only: loop_filter)
next
  fix f e assume f: "f \<in> set fl" "endswith f ''.xml'' \<and> extract_info_from_filename f = Inl e"
  let ?st0 = "\<lparr>latest_file = None, latest_export_time = (1970, 1, 1, 0, 0, 0), usernames = {}\<rparr>"
  from loop_first_error[of f e fl ?st0] f obtain e' where e': "process_files_loop fl ?st0 = Inl e'" by blast
  from loop_error[OF e'] obtain g where "g \<in> set fl" "endswith g ''.xml''" "extract_info_from_filename g = Inl e'"
    by blast
  moreover from e' have "process_files fl = Inl e'" unfolding process_files_def by simp
  ultimately show "\<exists>e' g. process_files fl = Inl e' \<and> g \<in> set fl \<and> endswith g ''.xml''
                 \<and> extract_info_from_filename g = Inl e'" by blast
qed

text \<open>The statement above on a folder with a text file, an export and \<^verbatim>\<open>notes.xml\<close>.\<close>

theorem select_skips_other_extensions_witness:
  "process_files (filter (\<lambda>f. endswith f ''.xml'')
       [''readme.txt'', ''vndb-list-export-A-20240101000000.xml'', ''notes.xml''])
     = process_files [''readme.txt'', ''vndb-list-export-A-20240101000000.xml'', ''notes.xml'']
   \<and> (\<exists>e' g. process_files [''readme.txt'', ''vndb-list-export-A-20240101000000.xml'', ''notes.xml''] = Inl e'
         \<and> g \<in> set [''readme.txt'', ''vndb-list-export-A-20240101000000.xml'', ''notes.xml'']
         \<and> endswith g ''.xml'' \<and> extract_info_from_filename g = Inl e')"
proof -
  let ?fl = "[''readme.txt'', ''vndb-list-export-A-20240101000000.xml'', ''notes.xml'']"
  have m: "''notes.xml'' \<in> set ?fl" by simp
  have h: "endswith ''notes.xml'' ''.xml'' \<and> extract_info_from_filename ''notes.xml'' = Inl FilenameMismatch"
    by (simp add: ex_notes endswith_def)
  from select_skips_other_extensions[of ?fl] m h show ?thesis by blast
qed

text \<open>
  Claim C4 as the specification states it fails: with \<^verbatim>\<open>notes.xml\<close> beside a well-named
  export, no file is returned.
\<close>

theorem select_skips_other_extensions_counterexample:
  "extract_info_from_filename ''notes.xml'' = Inl FilenameMismatch
   \<and> extract_info_from_filename ''vndb-list-export-A-20240101000000.xml'' = Inr (''A'', (2024, 1, 1, 0, 0, 0))
   \<and> process_files [''notes.xml'', ''vndb-list-export-A-20240101000000.xml''] = Inl FilenameMismatch"
  by (simp add: process_files_def ex_notes ex_2024 endswith_def)

text \<open>
  The selection for one owner. When every name ending in \<^verbatim>\<open>.xml\<close> is a candidate of the
  same owner and at least one export time is later than 1970-01-01 00:00:00, the initial
  value of \<^verbatim>\<open>latest_export_time\<close> (line 32), then \<^verbatim>\<open>process_files\<close> returns a candidate
  of the listing whose export time is the greatest of all candidates.
\<close>

lemma select_latest_single_owner:
  assumes one: "\<forall>f\<in>set fl. endswith f ''.xml'' \<longrightarrow> (\<exists>t. extract_info_from_filename f = Inr (owner, t))"
    and late: "is_candidate g owner t0" "g \<in> set fl" "(1970, 1, 1, 0, 0, 0) < t0"
  shows "\<exists>f t. process_files fl = Inr f \<and> f \<in> set fl \<and> is_candidate f owner t
           \<and> (\<forall>g\<in>set fl. \<forall>u' t'. is_candidate g u' t' \<longrightarrow> t' \<le> t)"
proof -
  from one have all: "\<forall>f\<in>set fl. endswith f ''.xml'' \<longrightarrow> (\<exists>u t. extract_info_from_filename f = Inr (u, t))"
    by blast
  from process_files_result[OF all late] obtain st' f where
    st': "process_files_loop fl \<lparr>latest_file = None, latest_export_time = (1970, 1, 1, 0, 0, 0), usernames = {}\<rparr> = Inr st'"
      "latest_file st' = Some f" "first_latest fl f (latest_export_time st')"
      "usernames st' = {u. \<exists>f\<in>set fl. \<exists>t. is_candidate f u t}" by blast
  have own: "\<And>h u t. h \<in> set fl \<Longrightarrow> is_candidate h u t \<Longrightarrow> u = owner"
    using one unfolding is_candidate_def by fastforce
  then have "usernames st' \<subseteq> {owner}" using st'(4) by blast
  then have "card (usernames st') \<le> 1"
    by (metis card_mono finite.emptyI finite.insertI card.empty card.insert empty_iff One_nat_def)
  with st'(1,2) have res: "process_files fl = Inr f" unfolding process_files_def by simp
  let ?t = "latest_export_time st'"
  from st'(3) obtain pre post u where h: "fl = pre @ f # post" "is_candidate f u ?t"
    "\<forall>x\<in>set pre. \<forall>u' t'. is_candidate x u' t' \<longrightarrow> t' < ?t"
    "\<forall>x\<in>set post. \<forall>u' t'. is_candidate x u' t' \<longrightarrow> t' \<le> ?t"
    unfolding first_latest_def by blast
  have fin: "f \<in> set fl" using h(1) by simp
  have cand: "is_candidate f owner ?t" using own[OF fin h(2)] h(2) by simp
  have mx: "\<forall>g\<in>set fl. \<forall>u' t'. is_candidate g u' t' \<longrightarrow> t' \<le> ?t"
  proof (intro ballI allI impI)
    fix g u' t' assume g: "g \<in> set fl" "is_candidate g u' t'"
    from g(1) h(1) consider "g \<in> set pre" | "g = f" | "g \<in> set post" by auto
    then show "t' \<le> ?t"
    proof cases
      case 1 with h(3) g(2) show ?thesis by (metis less_imp_le)
    next
      case 2 with h(2) g(2) show ?thesis unfolding is_candidate_def by simp
    next
      case 3 with h(4) g(2) show ?thesis by blast
    qed
  qed
  from res fin cand mx show ?thesis by blast
qed

text \<open>
  The example of claim C5: owners A and A, export times 20230101000000 and
  20240101000000; the second file is returned.
\<close>

lemma select_latest_single_owner_example:
  "is_candidate ''vndb-list-export-A-20240101000000.xml'' ''A'' (2024, 1, 1, 0, 0, 0)
   \<and> process_files [''vndb-list-export-A-20230101000000.xml'', ''vndb-list-export-A-20240101000000.xml'']
       = Inr ''vndb-list-export-A-20240101000000.xml''
   \<and> (\<exists>f t. process_files [''vndb-list-export-A-20230101000000.xml'', ''vndb-list-export-A-20240101000000.xml''] = Inr f
         \<and> f \<in> set [''vndb-list-export-A-20230101000000.xml'', ''vndb-list-export-A-20240101000000.xml'']
         \<and> is_candidate f ''A'' t
         \<and> (\<forall>g\<in>set [''vndb-list-export-A-20230101000000.xml'', ''vndb-list-export-A-20240101000000.xml''].
               \<forall>u' t'. is_candidate g u' t' \<longrightarrow> t' \<le> t))"
proof -
  let ?fl = "[''vndb-list-export-A-20230101000000.xml'', ''vndb-list-export-A-20240101000000.xml'']"
  have one: "\<forall>f\<in>set ?fl. endswith f ''.xml'' \<longrightarrow> (\<exists>t. extract_info_from_filename f = Inr (''A'', t))"
    by (simp add: ex_2023 ex_2024 del: split_paired_Ex)
  have c: "is_candidate ''vndb-list-export-A-20240101000000.xml'' ''A'' (2024, 1, 1, 0, 0, 0)"
    by (simp add: is_candidate_def ex_2024 endswith_def)
  have m: "''vndb-list-export-A-20240101000000.xml'' \<in> set ?fl" by simp
  have l: "(1970, 1, 1, 0, 0, 0) < ((2024, 1, 1, 0, 0, 0) :: datetime)" by simp
  have r: "process_files ?fl = Inr ''vndb-list-export-A-20240101000000.xml''"
    by (simp add: process_files_def ex_2023 ex_2024 endswith_def)
  from select_latest_single_owner[OF one c m l] c r show ?thesis by (intro conjI)
qed

text \<open>
  Claim C5 at a folder whose only file is an export of owner A dated 1970-01-01
  00:00:00. The name matches the pattern, but \<^verbatim>\<open>latest_export_time\<close> starts at that very
  instant (line 32) and the comparison of line 39 is strict: \<^verbatim>\<open>latest_file\<close> stays
  \<^verbatim>\<open>None\<close> and line 43 reports that no matching file was found, where the claim has the
  file returned.
\<close>

theorem select_latest_at_initial_time:
  "extract_info_from_filename ''vndb-list-export-A-19700101000000.xml'' = Inr (''A'', (1970, 1, 1, 0, 0, 0))
   \<and> process_files [''vndb-list-export-A-19700101000000.xml''] = Inl NoMatchingFile"
  by (simp add: process_files_def ex_A1970 endswith_def)

text \<open>
  The selection for several owners. With two candidates of different owners in the
  listing, \<^verbatim>\<open>process_files\<close> never returns a file. The error is the one of line 45
  (several users) when every name ending in \<^verbatim>\<open>.xml\<close> is a candidate and some export time
  is later than 1970-01-01 00:00:00; line 43 is checked before line 45.
\<close>

lemma select_rejects_several_owners:
  assumes "is_candidate f1 u1 t1" "f1 \<in> set fl" "is_candidate f2 u2 t2" "f2 \<in> set fl" "u1 \<noteq> u2"
  shows "(\<forall>f. process_files fl \<noteq> Inr f)
       \<and> ((\<forall>f\<in>set fl. endswith f ''.xml'' \<longrightarrow> (\<exists>u t. extract_info_from_filename f = Inr (u, t)))
            \<and> (\<exists>g\<in>set fl. \<exists>u t. is_candidate g u t \<and> (1970, 1, 1, 0, 0, 0) < t)
          \<longrightarrow> process_files fl = Inl MultipleUsers)"
proof -
  let ?st0 = "\<lparr>latest_file = None, latest_export_time = (1970, 1, 1, 0, 0, 0), usernames = {}\<rparr>"
  have many: "1 < card (usernames st')" if st': "process_files_loop fl ?st0 = Inr st'" for st'
  proof -
    from loop_usernames[OF st'] have "usernames st' = {u. \<exists>f\<in>set fl. \<exists>t. is_candidate f u t}"
      by (simp del: split_paired_Ex split_paired_All)
    with assms(1-4) have "{u1, u2} \<subseteq> usernames st'" by blast
    moreover from loop_finite[OF st'] have "finite (usernames st')" by simp
    ultimately have "card {u1, u2} \<le> card (usernames st')" by (rule card_mono[rotated])
    with assms(5) show ?thesis by simp
  qed
  have never: "\<forall>f. process_files fl \<noteq> Inr f"
    unfolding process_files_def using many by (auto split: sum.splits option.splits)
  have "process_files fl = Inl MultipleUsers"
    if all: "\<forall>f\<in>set fl. endswith f ''.xml'' \<longrightarrow> (\<exists>u t. extract_info_from_filename f = Inr (u, t))"
    and late: "\<exists>g\<in>set fl. \<exists>u t. is_candidate g u t \<and> (1970, 1, 1, 0, 0, 0) < t"
  proof -
    from late obtain g u t where g: "is_candidate g u t" "g \<in> set fl" "(1970, 1, 1, 0, 0, 0) < t" by blast
    from process_files_result[OF all g] obtain st' f where
      st': "process_files_loop fl ?st0 = Inr st'" "latest_file st' = Some f" by blast
    with many[OF st'(1)] show ?thesis unfolding process_files_def by simp
  qed
  with never show ?thesis by blast
qed

text \<open>Two owners, A and B, with export times of 2023 and 2024.\<close>

lemma select_rejects_several_owners_example:
  "is_candidate ''vndb-list-export-A-20230101000000.xml'' ''A'' (2023, 1, 1, 0, 0, 0)
   \<and> is_candidate ''vndb-list-export-B-20240101000000.xml'' ''B'' (2024, 1, 1, 0, 0, 0)
   \<and> process_files [''vndb-list-export-A-20230101000000.xml'', ''vndb-list-export-B-20240101000000.xml'']
       = Inl MultipleUsers"
proof -
  let ?fl = "[''vndb-list-export-A-20230101000000.xml'', ''vndb-list-export-B-20240101000000.xml'']"
  have a: "is_candidate ''vndb-list-export-A-20230101000000.xml'' ''A'' (2023, 1, 1, 0, 0, 0)"
    by (simp add: is_candidate_def ex_2023 endswith_def)
  have b: "is_candidate ''vndb-list-export-B-20240101000000.xml'' ''B'' (2024, 1, 1, 0, 0, 0)"
    by (simp add: is_candidate_def ex_B2024 endswith_def)
  have all: "\<forall>f\<in>set ?fl. endswith f ''.xml'' \<longrightarrow> (\<exists>u t. extract_info_from_filename f = Inr (u, t))"
    by (simp add: ex_2023 ex_B2024 del: split_paired_Ex)
  have late: "\<exists>g\<in>set ?fl. \<exists>u t. is_candidate g u t \<and> (1970, 1, 1, 0, 0, 0) < t"
    using b by (intro bexI[of _ "''vndb-list-export-B-20240101000000.xml''"] exI[of _ "''B''"]
        exI[of _ "(2024, 1, 1, 0, 0, 0)"]) simp_all
  have "process_files ?fl = Inl MultipleUsers"
    using select_rejects_several_owners[of "''vndb-list-export-A-20230101000000.xml''" "''A''" "(2023, 1, 1, 0, 0, 0)"
        ?fl "''vndb-list-export-B-20240101000000.xml''" "''B''" "(2024, 1, 1, 0, 0, 0)"] a b all late
    by simp
  with a b show ?thesis by (intro conjI)
qed

text \<open>
  Claim C9 at a folder with exports of two owners, A and B, both dated 1969-01-01
  00:00:00. Both names match the pattern and two user names are collected, but neither
  export is later than the initial \<^verbatim>\<open>latest_export_time\<close> of line 32, so \<^verbatim>\<open>latest_file\<close>
  stays \<^verbatim>\<open>None\<close> and line 43 reports that no matching file was found, where the claim has
  the error of line 45 for several users.
\<close>

theorem select_several_owners_before_initial_time:
  "extract_info_from_filename ''vndb-list-export-A-19690101000000.xml'' = Inr (''A'', (1969, 1, 1, 0, 0, 0))
   \<and> extract_info_from_filename ''vndb-list-export-B-19690101000000.xml'' = Inr (''B'', (1969, 1, 1, 0, 0, 0))
   \<and> process_files [''vndb-list-export-A-19690101000000.xml'', ''vndb-list-export-B-19690101000000.xml'']
       = Inl NoMatchingFile"
  by (simp add: process_files_def ex_A1969 ex_B1969 endswith_def)

text \<open>
  Claim C10. The file that \<^verbatim>\<open>process_files\<close> returns is a candidate of the listing such
  that every candidate before it in the listing is strictly older and every candidate
  after it is not newer: among the candidates that share the greatest export time it is
  the first one, and a later file with an equal time never replaces it.
\<close>

theorem select_first_of_latest:
  assumes "process_files fl = Inr f"
  shows "\<exists>pre post u t. fl = pre @ f # post \<and> is_candidate f u t
           \<and> (\<forall>g\<in>set pre. \<forall>u' t'. is_candidate g u' t' \<longrightarrow> t' < t)
           \<and> (\<forall>g\<in>set post. \<forall>u' t'. is_candidate g u' t' \<longrightarrow> t' \<le> t)"
  using process_files_Inr[OF assms] unfolding first_latest_def by blast

text \<open>
  Two names with the same owner and the same export time (the pattern is matched at the
  start of the name only), then an older export: the first name is returned.
\<close>

theorem select_first_of_latest_witness:
  "process_files [''vndb-list-export-A-20240101000000.xml'', ''vndb-list-export-A-20240101000000.xml.xml'',
                  ''vndb-list-export-A-20230101000000.xml'']
     = Inr ''vndb-list-export-A-20240101000000.xml''
   \<and> (\<exists>pre post u t.
         [''vndb-list-export-A-20240101000000.xml'', ''vndb-list-export-A-20240101000000.xml.xml'',
          ''vndb-list-export-A-20230101000000.xml'']
           = pre @ ''vndb-list-export-A-20240101000000.xml'' # post
         \<and> is_candidate ''vndb-list-export-A-20240101000000.xml'' u t
         \<and> (\<forall>g\<in>set pre. \<forall>u' t'. is_candidate g u' t' \<longrightarrow> t' < t)
         \<and> (\<forall>g\<in>set post. \<forall>u' t'. is_candidate g u' t' \<longrightarrow> t' \<le> t))"
proof -
  have r: "process_files [''vndb-list-export-A-20240101000000.xml'', ''vndb-list-export-A-20240101000000.xml.xml'',
                  ''vndb-list-export-A-20230101000000.xml'']
     = Inr ''vndb-list-export-A-20240101000000.xml''"
    by (simp add: process_files_def ex_2023 ex_2024 ex_2024b endswith_def)
  from select_first_of_latest[OF r] r show ?thesis by (rule_tac conjI)
qed

section \<open>Properties of the extraction\<close>

lemma start_gate_Some:
  "start_gate time_range vn = Some s \<longleftrightarrow>
     (\<exists>se sd c. find_elem vn ''started'' = Some se \<and> elem_text se = Some s
        \<and> strptime_ymd s = Some sd \<and> strptime_ymd time_range = Some c \<and> \<not> sd < c)"
  unfolding start_gate_def
  by (auto split: option.splits
      simp del: split_paired_Ex split_paired_All less_prod_simp less_eq_prod_simp)

lemma start_gate_None:
  "start_gate time_range vn = None \<Longrightarrow> extract_vn pd time_range today vn = Inr None"
  by (simp add: extract_vn_def)

lemma loop_append:
  "extract_vn_loop pd tr today (xs @ ys) acc =
     (case extract_vn_loop pd tr today xs acc of
        Inl e \<Rightarrow> Inl e
      | Inr rs \<Rightarrow> extract_vn_loop pd tr today ys rs)"
  by (induction xs arbitrary: acc) (auto split: sum.splits option.splits)

lemma loop_skip:
  "extract_vn pd tr today vn = Inr None \<Longrightarrow>
     extract_vn_loop pd tr today (pre @ vn # post) acc
       = extract_vn_loop pd tr today (pre @ post) acc"
  by (simp add: loop_append split: sum.splits)

lemma loop_raise:
  "extract_vn pd tr today vn = Inl e \<Longrightarrow>
     \<exists>e'. extract_vn_loop pd tr today (pre @ vn # post) acc = Inl e'"
  by (simp add: loop_append split: sum.splits)



subsection \<open>Concrete dates and entries\<close>

lemmas strptime_eval = strptime_ymd_def make_datetime_def num2_def num4_def digit_val_def
  is_digit_def days_in_month_def is_leap_def re_month2_def re_month1_def re_day2_def


lemma parse_cutoff: "strptime_ymd ''2020-01-01'' = Some (2020, 1, 1, 0, 0, 0)"
  by (simp add: strptime_eval)

lemma parse_2021_05_01: "strptime_ymd ''2021-05-01'' = Some (2021, 5, 1, 0, 0, 0)"
  by (simp add: strptime_eval)

lemma parse_2021_08_02: "strptime_ymd ''2021-08-02'' = Some (2021, 8, 2, 0, 0, 0)"
  by (simp add: strptime_eval)

lemma parse_2022_01_01: "strptime_ymd ''2022-01-01'' = Some (2022, 1, 1, 0, 0, 0)"
  by (simp add: strptime_eval)

lemma parse_2019_12_31: "strptime_ymd ''2019-12-31'' = Some (2019, 12, 31, 0, 0, 0)"
  by (simp add: strptime_eval)

lemma parse_soon: "strptime_ymd ''soon'' = None"
  by (simp add: strptime_eval)

lemmas entry_eval = extract_vn_def start_gate_def find_elem_def findall_def leaf_def math_log_def
  pd_examples_def Let_def parse_cutoff parse_2021_05_01 parse_2021_08_02 parse_2022_01_01
  parse_2019_12_31 parse_soon

lemma started_2021_05_01:
  "strptime_ymd ''2021-05-01'' = Some (2021, 5, 1, 0, 0, 0)
   \<and> strptime_ymd ''2020-01-01'' = Some (2020, 1, 1, 0, 0, 0)
   \<and> \<not> ((2021, 5, 1, 0, 0, 0) :: datetime) < (2020, 1, 1, 0, 0, 0)"
  by (simp add: parse_cutoff parse_2021_05_01)

lemma started_2022_01_01:
  "strptime_ymd ''2022-01-01'' = Some (2022, 1, 1, 0, 0, 0)
   \<and> strptime_ymd ''2020-01-01'' = Some (2020, 1, 1, 0, 0, 0)
   \<and> \<not> ((2022, 1, 1, 0, 0, 0) :: datetime) < (2020, 1, 1, 0, 0, 0)"
  by (simp add: parse_cutoff parse_2022_01_01)

lemma plain_record:
  "extract_vn pd_examples ''2020-01-01'' (2021, 8, 1) vn_plain
     = Inr (Some \<lparr>title = Some ''T'', started = ''2021-05-01'',
                  finished = FinishedText (Some ''2021-06-01''), label = Some ''Finished''\<rparr>)"
  by (simp add: vn_plain_def entry_eval)


lemma plain_loop:
  "extract_vn_loop pd_examples ''2020-01-01'' (2021, 8, 1) [vn_plain] []
     = Inr [\<lparr>title = Some ''T'', started = ''2021-05-01'',
             finished = FinishedText (Some ''2021-06-01''), label = Some ''Finished''\<rparr>]"
  by (simp only: extract_vn_loop.simps plain_record sum.case option.case append_Nil)

subsection \<open>The logarithm of the example\<close>






subsection \<open>The claims about the extraction\<close>







text \<open>
  Claim C3. An entry without a \<^verbatim>\<open>started\<close> element, or whose \<^verbatim>\<open>started\<close> element has no
  text or a text that \<^verbatim>\<open>strptime\<close> rejects, or whose start is strictly before the cutoff,
  yields no record, and the extraction gives what it gives without that entry: the loop
  goes on with the entries that follow.
\<close>

theorem skipped_entries:
  assumes "find_elem vn ''started'' = None
         \<or> (\<exists>se. find_elem vn ''started'' = Some se
               \<and> (elem_text se = None
                  \<or> (\<exists>s. elem_text se = Some s
                        \<and> (strptime_ymd s = None
                           \<or> (\<exists>d c. strptime_ymd s = Some d \<and> strptime_ymd time_range = Some c
                                  \<and> d < c)))))"
  shows "extract_vn pd time_range today vn = Inr None
       \<and> extract_vn_loop pd time_range today (pre @ vn # post) results
           = extract_vn_loop pd time_range today (pre @ post) results
       \<and> (\<forall>xml_root vns. find_elem xml_root ''vns'' = Some vns \<and> findall vns ''vn'' = pre @ vn # post
            \<longrightarrow> extract_vn_info pd time_range today xml_root
                  = extract_vn_loop pd time_range today (pre @ post) [])"
proof -
  from assms have "start_gate time_range vn = None"
    unfolding start_gate_def
    by (auto split: option.splits
        simp del: split_paired_Ex split_paired_All less_prod_simp less_eq_prod_simp)
  then have skip: "extract_vn pd time_range today vn = Inr None" by (rule start_gate_None)
  have "\<And>acc. extract_vn_loop pd time_range today (pre @ vn # post) acc
           = extract_vn_loop pd time_range today (pre @ post) acc"
    by (rule loop_skip[OF skip])
  then show ?thesis using skip by (simp add: extract_vn_info_def)
qed

text \<open>
  A document with an entry of each of the three kinds and a complete entry: the result
  is the record of the complete entry alone.
\<close>

theorem skipped_entries_witness:
  "extract_vn_info pd_examples ''2020-01-01'' (2021, 8, 1)
      (export_of [vn_no_started, vn_unparsable, vn_before_cutoff, vn_plain])
     = Inr [\<lparr>title = Some ''T'', started = ''2021-05-01'',
             finished = FinishedText (Some ''2021-06-01''), label = Some ''Finished''\<rparr>]"
proof -
  let ?tr = "''2020-01-01''" and ?today = "(2021, 8, 1) :: date"
  let ?doc = "export_of [vn_no_started, vn_unparsable, vn_before_cutoff, vn_plain]"
  have h1: "find_elem vn_no_started ''started'' = None
         \<or> (\<exists>se. find_elem vn_no_started ''started'' = Some se
               \<and> (elem_text se = None
                  \<or> (\<exists>s. elem_text se = Some s
                        \<and> (strptime_ymd s = None
                           \<or> (\<exists>d c. strptime_ymd s = Some d \<and> strptime_ymd ?tr = Some c
                                  \<and> d < c)))))"
    by (rule disjI1) (simp add: vn_no_started_def find_elem_def leaf_def)
  have f2: "find_elem vn_unparsable ''started'' = Some (leaf ''started'' ''soon'')"
    by (simp add: vn_unparsable_def find_elem_def leaf_def)
  have h2: "find_elem vn_unparsable ''started'' = None
         \<or> (\<exists>se. find_elem vn_unparsable ''started'' = Some se
               \<and> (elem_text se = None
                  \<or> (\<exists>s. elem_text se = Some s
                        \<and> (strptime_ymd s = None
                           \<or> (\<exists>d c. strptime_ymd s = Some d \<and> strptime_ymd ?tr = Some c
                                  \<and> d < c)))))"
    using f2 parse_soon by (simp add: leaf_def del: split_paired_Ex)
  have f3: "find_elem vn_before_cutoff ''started'' = Some (leaf ''started'' ''2019-12-31'')"
    by (simp add: vn_before_cutoff_def find_elem_def leaf_def)
  have lt: "((2019, 12, 31, 0, 0, 0) :: datetime) < (2020, 1, 1, 0, 0, 0)" by simp
  have h3: "find_elem vn_before_cutoff ''started'' = None
         \<or> (\<exists>se. find_elem vn_before_cutoff ''started'' = Some se
               \<and> (elem_text se = None
                  \<or> (\<exists>s. elem_text se = Some s
                        \<and> (strptime_ymd s = None
                           \<or> (\<exists>d c. strptime_ymd s = Some d \<and> strptime_ymd ?tr = Some c
                                  \<and> d < c)))))"
    using f3 parse_2019_12_31 parse_cutoff lt
    by (simp add: leaf_def del: split_paired_Ex less_prod_simp)
  have v: "find_elem ?doc ''vns'' = Some (Element ''vns'' Map.empty None
              [vn_no_started, vn_unparsable, vn_before_cutoff, vn_plain])"
    by (simp add: export_of_def find_elem_def)
  have a: "findall (Element ''vns'' Map.empty None
              [vn_no_started, vn_unparsable, vn_before_cutoff, vn_plain]) ''vn''
            = [] @ vn_no_started # [vn_unparsable, vn_before_cutoff, vn_plain]"
    by (simp add: findall_def vn_no_started_def vn_unparsable_def vn_before_cutoff_def
        vn_plain_def)
  from skipped_entries[OF h1, of pd_examples ?today "[]"
      "[vn_unparsable, vn_before_cutoff, vn_plain]" "[]"] v a
  have s1: "extract_vn_info pd_examples ?tr ?today ?doc
      = extract_vn_loop pd_examples ?tr ?today ([] @ [vn_unparsable, vn_before_cutoff, vn_plain]) []"
    by blast
  from skipped_entries[OF h2, of pd_examples ?today "[]" "[vn_before_cutoff, vn_plain]" "[]"]
  have s2: "extract_vn_loop pd_examples ?tr ?today ([] @ vn_unparsable # [vn_before_cutoff, vn_plain]) []
      = extract_vn_loop pd_examples ?tr ?today ([] @ [vn_before_cutoff, vn_plain]) []"
    by blast
  from skipped_entries[OF h3, of pd_examples ?today "[]" "[vn_plain]" "[]"]
  have s3: "extract_vn_loop pd_examples ?tr ?today ([] @ vn_before_cutoff # [vn_plain]) []
      = extract_vn_loop pd_examples ?tr ?today ([] @ [vn_plain]) []"
    by blast
  have s4: "extract_vn_loop pd_examples ?tr ?today [vn_plain] []
      = Inr [\<lparr>title = Some ''T'', started = ''2021-05-01'',
             finished = FinishedText (Some ''2021-06-01''), label = Some ''Finished''\<rparr>]"
    by (rule plain_loop)
  from s1 s2 s3 s4 show ?thesis by (simp only: append_Nil)
qed

text \<open>
  The finish date of an entry that passes the start-date gate and has a \<^verbatim>\<open>title\<close>
  element: when there is a \<^verbatim>\<open>finished\<close> element, its text is the \<open>finished\<close> of the
  record, whatever the label; when there is none and the label is not \<^verbatim>\<open>Stalled\<close>,
  \<open>finished\<close> is today.
\<close>

lemma finished_resolution:
  assumes "find_elem vn ''started'' = Some se" "elem_text se = Some s" "strptime_ymd s = Some sd"
    "strptime_ymd time_range = Some c" "\<not> sd < c" "find_elem vn ''title'' = Some te"
  shows "(\<forall>fe. find_elem vn ''finished'' = Some fe \<longrightarrow>
            (\<exists>r. extract_vn pd time_range today vn = Inr (Some r)
                 \<and> finished r = FinishedText (elem_text fe)))
       \<and> (find_elem vn ''finished'' = None
            \<and> \<not> (\<exists>le. find_elem vn ''label'' = Some le \<and> attrib le ''label'' = Some ''Stalled'')
          \<longrightarrow> (\<exists>r. extract_vn pd time_range today vn = Inr (Some r)
                 \<and> finished r = FinishedTimestamp (to_datetime today)))"
proof -
  from assms(1-5) have g: "start_gate time_range vn = Some s"
    unfolding start_gate_Some by blast
  show ?thesis
    using g assms(6) unfolding extract_vn_def
    by (auto split: option.splits simp: Let_def simp del: split_paired_Ex split_paired_All)
qed

text \<open>
  A stalled entry with the finish date 2022-06-01, and an entry started on 2022-01-01
  with the label \<^verbatim>\<open>Playing\<close> and no \<^verbatim>\<open>finished\<close> element.
\<close>

lemma finished_resolution_examples:
  "extract_vn pd_examples ''2020-01-01'' (2021, 8, 1) vn_finished_stalled
     = Inr (Some \<lparr>title = Some ''T'', started = ''2021-05-01'',
                  finished = FinishedText (Some ''2022-06-01''), label = Some ''Stalled''\<rparr>)
   \<and> extract_vn pd_examples ''2020-01-01'' (2022, 8, 1) vn_playing
     = Inr (Some \<lparr>title = Some ''T'', started = ''2022-01-01'',
                  finished = FinishedTimestamp (to_datetime (2022, 8, 1)),
                  label = Some ''Playing''\<rparr>)"
  by (simp add: vn_finished_stalled_def vn_playing_def entry_eval)

text \<open>
  Claim C6 at the entry started on 2022-01-01 with the label \<^verbatim>\<open>Playing\<close> and an empty
  \<^verbatim>\<open>finished\<close> element. The entry has no finish date, but \<^verbatim>\<open>find\<close> returns the element
  and its \<^verbatim>\<open>text\<close> is \<^verbatim>\<open>None\<close> without an exception, so the \<^verbatim>\<open>except\<close> branch of line 78,
  which the comment of line 79 writes for the works that have no finish date yet, is not
  taken: the record has \<open>finished\<close> \<^verbatim>\<open>None\<close>, where the claim has today.
\<close>

theorem finished_empty_element:
  "extract_vn pd_examples ''2020-01-01'' (2022, 8, 1) vn_playing_empty_finished
     = Inr (Some \<lparr>title = Some ''T'', started = ''2022-01-01'',
                  finished = FinishedText None, label = Some ''Playing''\<rparr>)"
  by (simp add: vn_playing_empty_finished_def entry_eval)

text \<open>
  Claim C7 at an entry whose \<^verbatim>\<open>label\<close> element has no \<^verbatim>\<open>label\<close> attribute: \<^verbatim>\<open>get\<close>
  returns \<^verbatim>\<open>None\<close> without raising, the \<^verbatim>\<open>except\<close> branch of line 73 is not taken, and
  the label of the record is \<^verbatim>\<open>None\<close>, not \<^verbatim>\<open>Finished\<close>.
\<close>

theorem label_without_attribute:
  "extract_vn pd_examples ''2020-01-01'' (2021, 8, 1) vn_bare_label
     = Inr (Some \<lparr>title = Some ''T'', started = ''2021-05-01'',
                  finished = FinishedTimestamp (to_datetime (2021, 8, 1)), label = None\<rparr>)"
  by (simp add: vn_bare_label_def entry_eval)

text \<open>
  The label of every emitted record: \<^verbatim>\<open>Finished\<close> without a \<^verbatim>\<open>label\<close> element, and the
  value of \<^verbatim>\<open>get\<close> otherwise.
\<close>

lemma label_resolution:
  assumes "extract_vn pd time_range today vn = Inr (Some r)"
  shows "label r = (case find_elem vn ''label'' of
                      None \<Rightarrow> Some ''Finished''
                    | Some le \<Rightarrow> attrib le ''label'')"
  using assms unfolding extract_vn_def
  by (auto simp: Let_def split: option.splits if_splits sum.splits prod.splits)

text \<open>
  Claim C8, as the code has it. For an entry that passes the start-date gate: without a
  \<^verbatim>\<open>title\<close> element the attribute error of line 65 leaves the function, so the whole
  extraction fails. With a \<^verbatim>\<open>title\<close> element that has neither an \<^verbatim>\<open>original\<close> attribute
  nor text, the entry is not skipped and no error is raised for its title: every record
  emitted for it has the title \<^verbatim>\<open>None\<close>, and a record is emitted whenever the entry has a
  \<^verbatim>\<open>finished\<close> element or a label other than \<^verbatim>\<open>Stalled\<close>.
\<close>

theorem title_resolution:
  assumes "find_elem vn ''started'' = Some se" "elem_text se = Some s" "strptime_ymd s = Some sd"
    "strptime_ymd time_range = Some c" "\<not> sd < c"
  shows "(find_elem vn ''title'' = None \<longrightarrow>
            extract_vn pd time_range today vn = Inl AttributeError
            \<and> (\<exists>e. extract_vn_loop pd time_range today (pre @ vn # post) results = Inl e))
       \<and> (\<forall>te. find_elem vn ''title'' = Some te \<and> attrib te ''original'' = None
                 \<and> elem_text te = None
            \<longrightarrow> extract_vn pd time_range today vn \<noteq> Inr None
               \<and> extract_vn pd time_range today vn \<noteq> Inl AttributeError
               \<and> (\<forall>r. extract_vn pd time_range today vn = Inr (Some r) \<longrightarrow> title r = None)
               \<and> ((\<exists>fe. find_elem vn ''finished'' = Some fe)
                    \<or> \<not> (\<exists>le. find_elem vn ''label'' = Some le
                              \<and> attrib le ''label'' = Some ''Stalled'')
                  \<longrightarrow> (\<exists>r. extract_vn pd time_range today vn = Inr (Some r)
                          \<and> title r = None)))"
proof -
  from assms have g: "start_gate time_range vn = Some s"
    unfolding start_gate_Some by blast
  have 1: "extract_vn pd time_range today vn = Inl AttributeError"
    if "find_elem vn ''title'' = None"
    using g that by (simp add: extract_vn_def)
  have 2: "extract_vn pd time_range today vn \<noteq> Inr None
               \<and> extract_vn pd time_range today vn \<noteq> Inl AttributeError
               \<and> (\<forall>r. extract_vn pd time_range today vn = Inr (Some r) \<longrightarrow> title r = None)
               \<and> ((\<exists>fe. find_elem vn ''finished'' = Some fe)
                    \<or> \<not> (\<exists>le. find_elem vn ''label'' = Some le
                              \<and> attrib le ''label'' = Some ''Stalled'')
                  \<longrightarrow> (\<exists>r. extract_vn pd time_range today vn = Inr (Some r)
                          \<and> title r = None))"
    if t: "find_elem vn ''title'' = Some te" "attrib te ''original'' = None" "elem_text te = None"
    for te
    using g t unfolding extract_vn_def math_log_def
    by (auto simp: Let_def split: option.splits if_splits sum.splits
        simp del: split_paired_Ex split_paired_All)
  from 1 2 loop_raise show ?thesis by blast
qed

text \<open>An entry without a \<^verbatim>\<open>title\<close> element, and an entry with an empty one.\<close>

theorem title_resolution_witness:
  "extract_vn pd_examples ''2020-01-01'' (2021, 8, 1) vn_no_title = Inl AttributeError
   \<and> (\<exists>e. extract_vn_loop pd_examples ''2020-01-01'' (2021, 8, 1)
            ([vn_plain] @ vn_no_title # [vn_plain]) [] = Inl e)
   \<and> (\<exists>r. extract_vn pd_examples ''2020-01-01'' (2021, 8, 1) vn_blank = Inr (Some r)
         \<and> title r = None)"
proof -
  note g = started_2021_05_01
  have s1: "find_elem vn_no_title ''started'' = Some (leaf ''started'' ''2021-05-01'')"
    and st: "elem_text (leaf ''started'' ''2021-05-01'') = Some ''2021-05-01''"
    and t1: "find_elem vn_no_title ''title'' = None"
    by (simp_all add: vn_no_title_def find_elem_def leaf_def)
  from title_resolution[OF s1 st conjunct1[OF g] conjunct1[OF conjunct2[OF g]]
      conjunct2[OF conjunct2[OF g]], of pd_examples "(2021, 8, 1)" "[vn_plain]" "[vn_plain]" "[]"] t1
  have a: "extract_vn pd_examples ''2020-01-01'' (2021, 8, 1) vn_no_title = Inl AttributeError
     \<and> (\<exists>e. extract_vn_loop pd_examples ''2020-01-01'' (2021, 8, 1)
            ([vn_plain] @ vn_no_title # [vn_plain]) [] = Inl e)"
    by blast
  have s2: "find_elem vn_blank ''started'' = Some (leaf ''started'' ''2021-05-01'')"
    and t2: "find_elem vn_blank ''title'' = Some (Element ''title'' Map.empty None [])"
    and f2: "find_elem vn_blank ''finished'' = Some (Element ''finished'' Map.empty None [])"
    by (simp_all add: vn_blank_def find_elem_def leaf_def)
  have t3: "attrib (Element ''title'' Map.empty None []) ''original'' = None"
      "elem_text (Element ''title'' Map.empty None []) = None"
    by simp_all
  from title_resolution[OF s2 st conjunct1[OF g] conjunct1[OF conjunct2[OF g]]
      conjunct2[OF conjunct2[OF g]], of pd_examples "(2021, 8, 1)"] t2 t3 f2
  have b: "\<exists>r. extract_vn pd_examples ''2020-01-01'' (2021, 8, 1) vn_blank = Inr (Some r)
      \<and> title r = None"
    by blast
  from a b show ?thesis by blast
qed

text \<open>
  Claim C8 as the specification states it fails: the entry with an empty \<^verbatim>\<open>title\<close>
  element is neither refused nor skipped.
\<close>

theorem title_resolution_counterexample:
  "extract_vn pd_examples ''2020-01-01'' (2021, 8, 1) vn_blank
     = Inr (Some \<lparr>title = None, started = ''2021-05-01'', finished = FinishedText None,
                  label = Some ''Finished''\<rparr>)"
  by (simp add: vn_blank_def entry_eval)

end
